theory Spec2Isabelle
  imports Complex_Main "HOL-Library.Word"
begin

section \<open>JavaScript values used by the chat page\<close>

text \<open>
  A JavaScript string is a sequence of UTF-16 code units. String literals of the source
  are ASCII and are written through \<open>lit\<close>.
\<close>

type_synonym jsstring = "16 word list"

definition lit :: "string \<Rightarrow> jsstring" where
  "lit s = map of_char s"

text \<open>
  \<open>String.prototype.trim\<close> removes white space and line terminators from both ends:
  TAB, LF, VT, FF, CR, SP, NBSP, the Unicode space separators and ZWNBSP.
\<close>

definition isWhiteSpace :: "16 word \<Rightarrow> bool" where
  "isWhiteSpace c \<longleftrightarrow>
     c \<in> {0x0009, 0x000A, 0x000B, 0x000C, 0x000D, 0x0020, 0x00A0, 0x1680,
          0x2000, 0x2001, 0x2002, 0x2003, 0x2004, 0x2005, 0x2006, 0x2007,
          0x2008, 0x2009, 0x200A, 0x2028, 0x2029, 0x202F, 0x205F, 0x3000, 0xFEFF}"

definition trim :: "jsstring \<Rightarrow> jsstring" where
  "trim s = rev (dropWhile isWhiteSpace (rev (dropWhile isWhiteSpace s)))"

text \<open>
  The value that \<open>response.json()\<close> resolves to. A number is kept as the rational value
  of the (finite) double, which is all the page looks at: it tests the number for being
  nonzero and passes it on. An object is the list of its own properties.
\<close>

datatype json =
    JNull
  | JBool bool
  | JNum rat
  | JStr jsstring
  | JArr "json list"
  | JObj "(jsstring \<times> json) list"

text \<open>A property read or a ref cell may also hold \<open>undefined\<close>.\<close>

datatype jsval = Undefined | Json json

text \<open>
  JavaScript truthiness of a parsed value, as tested by \<open>if (data.response)\<close>;
  \<open>undefined\<close> is falsy as well.
\<close>

fun truthy_json :: "json \<Rightarrow> bool" where
  "truthy_json JNull = False"
| "truthy_json (JBool b) = b"
| "truthy_json (JNum r) = (r \<noteq> 0)"
| "truthy_json (JStr s) = (s \<noteq> [])"
| "truthy_json (JArr xs) = True"
| "truthy_json (JObj fs) = True"

text \<open>Everything the \<open>try\<close> block of \<open>handleSend\<close> can throw.\<close>

datatype error =
    FetchRejected
  | ApiError jsstring
  | JsonRejected
  | TypeError
  | InvalidResponse

text \<open>
  Reading a property \<open>data.k\<close> of a parsed body: an own property of an object, a
  \<open>TypeError\<close> on \<open>null\<close>, and \<open>undefined\<close> on every other value (neither
  \<open>response\<close> nor \<open>thread_id\<close> is a property of a boolean, number, string or array).
\<close>

fun get_property :: "json \<Rightarrow> jsstring \<Rightarrow> error + jsval" where
  "get_property JNull k = Inl TypeError"
| "get_property (JObj fs) k =
     (case map_of fs k of None \<Rightarrow> Inr Undefined | Some v \<Rightarrow> Inr (Json v))"
| "get_property d k = Inr Undefined"

text \<open>
  \<open>JSON.stringify\<close> of an object literal, kept as the list of members of the JSON text:
  a property whose value is \<open>undefined\<close> is left out.
\<close>

fun JSON_stringify :: "(jsstring \<times> jsval) list \<Rightarrow> (jsstring \<times> json) list" where
  "JSON_stringify [] = []"
| "JSON_stringify ((k, Undefined) # ps) = JSON_stringify ps"
| "JSON_stringify ((k, Json v) # ps) = (k, v) # JSON_stringify ps"

section \<open>Data model\<close>

datatype sender = User | AI

record message =
  msg_text :: json
  msg_sender :: sender

text \<open>The \<open>fetch\<close> call of \<open>handleSend\<close>: URL, method, headers and body.\<close>

record request =
  url :: jsstring
  http_method :: jsstring
  headers :: "(jsstring \<times> jsstring) list"
  body :: "(jsstring \<times> json) list"

text \<open>
  What the awaited \<open>fetch\<close> and \<open>response.json()\<close> can deliver: the fetch promise
  rejects, or it resolves to a response with a status, whose body either fails to parse
  or parses to a value.
\<close>

datatype body_outcome = Unparsable | Parsed json

record response =
  status :: nat
  statusText :: jsstring
  json_body :: body_outcome

datatype fetch_outcome = Rejected | Resolved response

definition ok :: "response \<Rightarrow> bool" where
  "ok r \<longleftrightarrow> 200 \<le> status r \<and> status r \<le> 299"

text \<open>
  The state of \<open>ChatPage\<close>: the three \<open>useState\<close> cells and \<open>threadIdRef.current\<close>.
\<close>

record chat_page =
  messages :: "message list"
  input :: jsstring
  isLoading :: bool
  threadIdRef :: jsval

definition initial_page :: chat_page where
  "initial_page = \<lparr>messages = [], input = [], isLoading = False, threadIdRef = Json JNull\<rparr>"

section \<open>ChatInput\<close>

record keyboard_event =
  key :: jsstring
  shiftKey :: bool

text \<open>
  Both handlers of \<open>ChatInput\<close>, as functions of the props \<open>value\<close> and \<open>isLoading\<close>.
  The result says whether \<open>event.preventDefault()\<close> was called and whether \<open>onSend()\<close>
  was called.
\<close>

record reaction =
  defaultPrevented :: bool
  onSendCalled :: bool

definition handleKeyDown :: "jsstring \<Rightarrow> bool \<Rightarrow> keyboard_event \<Rightarrow> reaction" where
  "handleKeyDown value_prop loading event =
     (if key event = lit ''Enter'' \<and> \<not> shiftKey event
      then \<lparr>defaultPrevented = True,
            onSendCalled = (\<not> loading \<and> trim value_prop \<noteq> [])\<rparr>
      else \<lparr>defaultPrevented = False, onSendCalled = False\<rparr>)"

definition handleSubmit :: "jsstring \<Rightarrow> bool \<Rightarrow> reaction" where
  "handleSubmit value_prop loading =
     \<lparr>defaultPrevented = True, onSendCalled = (\<not> loading \<and> trim value_prop \<noteq> [])\<rparr>"

section \<open>ChatPage.handleSend\<close>

definition fallback_text :: jsstring where
  "fallback_text = lit ''Sorry, I couldn't connect to the server. Please try again later.''"

text \<open>
  The part of \<open>handleSend\<close> that runs before the \<open>await\<close>: the guard, the three state
  updates and the \<open>fetch\<close> call. \<open>input\<close> is the value captured by the closure, so the
  request carries the text as it was before \<open>setInput('')\<close>.
\<close>

definition handleSend_call :: "chat_page \<Rightarrow> chat_page \<times> request option" where
  "handleSend_call p =
     (if trim (input p) = [] then (p, None)
      else
        let userMessage = \<lparr>msg_text = JStr (input p), msg_sender = User\<rparr>
        in (p\<lparr>messages := messages p @ [userMessage], input := [], isLoading := True\<rparr>,
            Some \<lparr>url = lit ''http://localhost:8080/chat'',
                  http_method = lit ''POST'',
                  headers = [(lit ''Content-Type'', lit ''application/json'')],
                  body = JSON_stringify
                           [(lit ''message'', Json (JStr (input p))),
                            (lit ''thread_id'', threadIdRef p)]\<rparr>))"

text \<open>
  The rest of the \<open>try\<close> block, from the settled \<open>fetch\<close> to the test of
  \<open>data.response\<close>: either an error is thrown, or the reply and \<open>data.thread_id\<close>
  are at hand.
\<close>

definition try_block :: "fetch_outcome \<Rightarrow> error + (json \<times> jsval)" where
  "try_block outcome =
     (case outcome of
        Rejected \<Rightarrow> Inl FetchRejected
      | Resolved r \<Rightarrow>
          if \<not> ok r then Inl (ApiError (statusText r))
          else (case json_body r of
                  Unparsable \<Rightarrow> Inl JsonRejected
                | Parsed data \<Rightarrow>
                    (case get_property data (lit ''response'') of
                       Inl e \<Rightarrow> Inl e
                     | Inr Undefined \<Rightarrow> Inl InvalidResponse
                     | Inr (Json v) \<Rightarrow>
                         if truthy_json v
                         then (case get_property data (lit ''thread_id'') of
                                 Inl e \<Rightarrow> Inl e
                               | Inr t \<Rightarrow> Inr (v, t))
                         else Inl InvalidResponse)))"

text \<open>
  The continuation of \<open>handleSend\<close> after the \<open>await\<close>: the success branch, the
  \<open>catch\<close> block and the \<open>finally\<close> block. It works on the page state current when the
  request settles (functional \<open>setMessages\<close> updates and a ref cell).
\<close>

definition handleSend_settle :: "fetch_outcome \<Rightarrow> chat_page \<Rightarrow> chat_page" where
  "handleSend_settle outcome p =
     (case try_block outcome of
        Inr (reply, tid) \<Rightarrow>
          p\<lparr>messages := messages p @ [\<lparr>msg_text = reply, msg_sender = AI\<rparr>],
            threadIdRef := tid,
            isLoading := False\<rparr>
      | Inl e \<Rightarrow>
          p\<lparr>messages := messages p @ [\<lparr>msg_text = JStr fallback_text, msg_sender = AI\<rparr>],
            isLoading := False\<rparr>)"

section \<open>The page as a state machine\<close>

text \<open>
  The page together with the network as the page sees it: the log of \<open>fetch\<close> calls and
  the number of calls that have not settled yet.
\<close>

record world =
  page :: chat_page
  sent :: "request list"
  inflight :: nat

definition initial_world :: world where
  "initial_world = \<lparr>page = initial_page, sent = [], inflight = 0\<rparr>"

datatype event =
    Change jsstring
  | KeyDown keyboard_event
  | Submit
  | Settle fetch_outcome

text \<open>
  \<open>ChatPage\<close> renders \<open>ChatInput\<close> with \<open>value = input\<close>, the pending flag,
  \<open>onChange = setInput(e.target.value)\<close> and \<open>onSend = handleSend\<close>. A call of
  \<open>handleSend\<close> that reaches \<open>fetch\<close> adds a request to the log and leaves one more
  call outstanding; \<open>Settle\<close> is the moment an outstanding call settles and the rest of
  \<open>handleSend\<close> runs (there is nothing to run when no call is outstanding).
\<close>

definition onSend :: "world \<Rightarrow> world" where
  "onSend w =
     (case handleSend_call (page w) of
        (p, None) \<Rightarrow> w\<lparr>page := p\<rparr>
      | (p, Some rq) \<Rightarrow> w\<lparr>page := p, sent := sent w @ [rq], inflight := Suc (inflight w)\<rparr>)"

text \<open>
  The form's submit event runs \<open>handleSubmit\<close> (\<open>onSubmit={handleSubmit}\<close>).
\<close>

definition submit_form :: "world \<Rightarrow> world" where
  "submit_form w =
     (if onSendCalled (handleSubmit (input (page w)) (isLoading (page w)))
      then onSend w else w)"

text \<open>
  The submit button is rendered with \<open>disabled={isLoading || !value.trim()}\<close>.
\<close>

definition submitDisabled :: "chat_page \<Rightarrow> bool" where
  "submitDisabled p \<longleftrightarrow> isLoading p \<or> trim (input p) = []"

text \<open>
  The text field is an \<open>input\<close> inside the \<open>form\<close>, next to the form's submit button.
  When a key press is not prevented by \<open>handleKeyDown\<close>, the browser goes on to its
  default action: for Enter, whatever the modifiers, it submits the form through the
  submit button, unless the button is disabled (implicit submission). The default action
  of any other key is text entry, which reaches the page as a \<open>Change\<close> event.
\<close>

definition default_action :: "world \<Rightarrow> keyboard_event \<Rightarrow> world" where
  "default_action w e =
     (if key e = lit ''Enter'' \<and> \<not> submitDisabled (page w) then submit_form w else w)"

fun step :: "world \<Rightarrow> event \<Rightarrow> world" where
  "step w (Change v) = w\<lparr>page := (page w)\<lparr>input := v\<rparr>\<rparr>"
| "step w (KeyDown e) =
     (let r = handleKeyDown (input (page w)) (isLoading (page w)) e;
          w' = (if onSendCalled r then onSend w else w)
      in if defaultPrevented r then w' else default_action w' e)"
| "step w Submit = submit_form w"
| "step w (Settle outcome) =
     (if inflight w = 0 then w
      else w\<lparr>page := handleSend_settle outcome (page w), inflight := inflight w - 1\<rparr>)"

fun run :: "world \<Rightarrow> event list \<Rightarrow> world" where
  "run w [] = w"
| "run w (e # es) = run (step w e) es"

text \<open>
  One round trip as the user drives it: type the text, submit it by a click on the
  button or by the Enter key, and the request settles.
\<close>

datatype trigger = Click | PressEnter

fun trigger_event :: "trigger \<Rightarrow> event" where
  "trigger_event Click = Submit"
| "trigger_event PressEnter = KeyDown \<lparr>key = lit ''Enter'', shiftKey = False\<rparr>"

fun round_trip :: "jsstring \<times> trigger \<times> fetch_outcome \<Rightarrow> event list" where
  "round_trip (t, g, outcome) = [Change t, trigger_event g, Settle outcome]"

text \<open>A settled request is successful when the \<open>try\<close> block throws nothing.\<close>

definition successful :: "fetch_outcome \<Rightarrow> bool" where
  "successful outcome = (case try_block outcome of Inl e \<Rightarrow> False | Inr x \<Rightarrow> True)"

section \<open>Example values\<close>

text \<open>A 2xx reply with the body \<open>{response: "Hi there!", thread_id: "t1"}\<close>.\<close>

definition hello_reply :: fetch_outcome where
  "hello_reply = Resolved \<lparr>status = 200, statusText = lit ''OK'',
     json_body = Parsed (JObj [(lit ''response'', JStr (lit ''Hi there!'')),
                               (lit ''thread_id'', JStr (lit ''t1''))])\<rparr>"

text \<open>A reply that carries the thread identifier \<open>"abc123"\<close>.\<close>

definition abc_reply :: fetch_outcome where
  "abc_reply = Resolved \<lparr>status = 200, statusText = lit ''OK'',
     json_body = Parsed (JObj [(lit ''response'', JStr (lit ''Hi there!'')),
                               (lit ''thread_id'', JStr (lit ''abc123''))])\<rparr>"

text \<open>A reply with status 500.\<close>

definition server_error :: fetch_outcome where
  "server_error = Resolved \<lparr>status = 500, statusText = lit ''Internal Server Error'',
     json_body = Unparsable\<rparr>"

text \<open>The page while the request for \<open>"Hello"\<close> is outstanding, with new text typed.\<close>

definition waiting_page :: chat_page where
  "waiting_page = \<lparr>messages = [\<lparr>msg_text = JStr (lit ''Hello''), msg_sender = User\<rparr>],
     input = lit ''more'', isLoading = True, threadIdRef = Json JNull\<rparr>"

definition waiting_world :: world where
  "waiting_world = \<lparr>page = waiting_page, sent = [], inflight = 1\<rparr>"

section \<open>Basic facts\<close>

lemma run_append: "run w (es @ fs) = run (run w es) fs"
  by (induction es arbitrary: w) simp_all

lemma handleSend_call_empty: "trim (input p) = [] \<Longrightarrow> handleSend_call p = (p, None)"
  by (simp add: handleSend_call_def)

lemma handleSend_call_valid:
  "trim (input p) \<noteq> [] \<Longrightarrow>
   handleSend_call p =
     (p\<lparr>messages := messages p @ [\<lparr>msg_text = JStr (input p), msg_sender = User\<rparr>],
        input := [], isLoading := True\<rparr>,
      Some \<lparr>url = lit ''http://localhost:8080/chat'', http_method = lit ''POST'',
            headers = [(lit ''Content-Type'', lit ''application/json'')],
            body = JSON_stringify [(lit ''message'', Json (JStr (input p))),
                                   (lit ''thread_id'', threadIdRef p)]\<rparr>)"
  by (simp add: handleSend_call_def Let_def)

lemma get_property_Json:
  "get_property d k = Inr (Json v) \<longleftrightarrow> (\<exists>fs. d = JObj fs \<and> map_of fs k = Some v)"
  by (cases d) (auto split: option.splits)

lemma try_block_success_iff:
  "try_block outcome = Inr (v, t) \<longleftrightarrow>
     (\<exists>r d. outcome = Resolved r \<and> ok r \<and> json_body r = Parsed d \<and>
            get_property d (lit ''response'') = Inr (Json v) \<and> truthy_json v \<and>
            get_property d (lit ''thread_id'') = Inr t)"
  by (auto simp: try_block_def
      split: fetch_outcome.splits body_outcome.splits sum.splits jsval.splits)

lemma successful_iff:
  "successful outcome \<longleftrightarrow> (\<exists>v tid. try_block outcome = Inr (v, tid))"
  by (auto simp: successful_def split: sum.splits)

lemma try_block_failures:
  "try_block Rejected = Inl FetchRejected"
  "\<not> ok r \<Longrightarrow> try_block (Resolved r) = Inl (ApiError (statusText r))"
  "ok r \<Longrightarrow> json_body r = Parsed d \<Longrightarrow> get_property d (lit ''response'') = Inr Undefined
     \<Longrightarrow> try_block (Resolved r) = Inl InvalidResponse"
  by (simp_all add: try_block_def)

lemma settle_success:
  "try_block outcome = Inr (v, t) \<Longrightarrow>
   handleSend_settle outcome p =
     p\<lparr>messages := messages p @ [\<lparr>msg_text = v, msg_sender = AI\<rparr>],
       threadIdRef := t, isLoading := False\<rparr>"
  by (simp add: handleSend_settle_def)

lemma settle_failure:
  "try_block outcome = Inl e \<Longrightarrow>
   handleSend_settle outcome p =
     p\<lparr>messages := messages p @ [\<lparr>msg_text = JStr fallback_text, msg_sender = AI\<rparr>],
       isLoading := False\<rparr>"
  by (simp add: handleSend_settle_def)

lemma submit_form_eq:
  "submit_form w = (if \<not> isLoading (page w) \<and> trim (input (page w)) \<noteq> [] then onSend w else w)"
  by (simp add: submit_form_def handleSubmit_def)

text \<open>
  What a key press does to the page: Enter sends when nothing is pending and the text is
  not blank, with shift or without; every other key press changes nothing.
\<close>

lemma step_KeyDown:
  "step w (KeyDown e) =
     (if key e = lit ''Enter'' \<and> \<not> isLoading (page w) \<and> trim (input (page w)) \<noteq> []
      then onSend w else w)"
  by (simp add: handleKeyDown_def default_action_def submitDisabled_def submit_form_eq Let_def)

lemma handleKeyDown_onSend_iff:
  "onSendCalled (handleKeyDown v loading e) \<longleftrightarrow>
     key e = lit ''Enter'' \<and> \<not> shiftKey e \<and> \<not> loading \<and> trim v \<noteq> []"
  by (simp add: handleKeyDown_def)

lemma trigger_sends:
  "\<not> isLoading (page w) \<Longrightarrow> trim (input (page w)) \<noteq> [] \<Longrightarrow>
   step w (trigger_event g) = onSend w"
  by (cases g) (simp_all add: submit_form_eq step_KeyDown del: step.simps(2))

lemma round_trip_success:
  assumes "\<not> isLoading (page w)" "inflight w = 0" "trim t \<noteq> []"
    and "try_block outcome = Inr (v, tid)"
  shows "run w (round_trip (t, g, outcome)) =
           w\<lparr>page := (page w)\<lparr>messages := messages (page w) @
                                 [\<lparr>msg_text = JStr t, msg_sender = User\<rparr>,
                                  \<lparr>msg_text = v, msg_sender = AI\<rparr>],
                               input := [], isLoading := False, threadIdRef := tid\<rparr>,
             sent := sent w @
               [\<lparr>url = lit ''http://localhost:8080/chat'', http_method = lit ''POST'',
                 headers = [(lit ''Content-Type'', lit ''application/json'')],
                 body = JSON_stringify [(lit ''message'', Json (JStr t)),
                                        (lit ''thread_id'', threadIdRef (page w))]\<rparr>]\<rparr>"
proof -
  let ?w1 = "w\<lparr>page := (page w)\<lparr>input := t\<rparr>\<rparr>"
  have 1: "\<not> isLoading (page ?w1)" "trim (input (page ?w1)) \<noteq> []"
    using assms by simp_all
  have 2: "step ?w1 (trigger_event g) = onSend ?w1"
    using trigger_sends[OF 1] .
  have 3: "run w (round_trip (t, g, outcome)) = step (onSend ?w1) (Settle outcome)"
    by (simp add: 2)
  show ?thesis
    unfolding 3 using assms
    by (simp add: onSend_def handleSend_call_valid settle_success)
qed

lemma rounds_senders:
  assumes "\<not> isLoading (page w)" "inflight w = 0"
      and "\<forall>r \<in> set rounds. trim (fst r) \<noteq> [] \<and> successful (snd (snd r))"
  shows "map msg_sender (messages (page (run w (concat (map round_trip rounds))))) =
           map msg_sender (messages (page w)) @ concat (replicate (length rounds) [User, AI])"
  using assms
proof (induction rounds arbitrary: w)
  case Nil
  then show ?case by simp
next
  case (Cons r rounds)
  obtain t g outcome where r: "r = (t, g, outcome)" by (cases r)
  from Cons.prems r obtain v tid where valid: "trim t \<noteq> []" "try_block outcome = Inr (v, tid)"
    by (auto simp: successful_iff)
  let ?w' = "run w (round_trip r)"
  note rt = round_trip_success[OF Cons.prems(1) Cons.prems(2) valid, of g]
  have idle': "\<not> isLoading (page ?w')" "inflight ?w' = 0"
    unfolding r rt using Cons.prems(2) by simp_all
  have ms: "map msg_sender (messages (page ?w')) = map msg_sender (messages (page w)) @ [User, AI]"
    unfolding r rt by simp
  have "map msg_sender (messages (page (run ?w' (concat (map round_trip rounds))))) =
          map msg_sender (messages (page ?w')) @ concat (replicate (length rounds) [User, AI])"
    using Cons.IH[OF idle'] Cons.prems(3) by simp
  then show ?case
    by (simp add: run_append ms del: round_trip.simps)
qed

text \<open>
  The pending flag counts the outstanding requests: each step of the page keeps
  \<open>inflight\<close> equal to 1 while \<open>isLoading\<close> holds and to 0 otherwise.
\<close>

lemma step_keeps_count:
  assumes "inflight w = (if isLoading (page w) then 1 else 0)"
  shows "inflight (step w e) = (if isLoading (page (step w e)) then 1 else 0)"
proof (cases e)
  case (Change v)
  then show ?thesis using assms by simp
next
  case (KeyDown k)
  then show ?thesis using assms
    by (auto simp: step_KeyDown onSend_def handleSend_call_valid simp del: step.simps(2))
next
  case Submit
  then show ?thesis using assms
    by (auto simp: submit_form_eq onSend_def handleSend_call_valid)
next
  case (Settle outcome)
  then show ?thesis using assms
    by (cases "try_block outcome") (auto simp: handleSend_settle_def split: if_splits)
qed

lemma run_keeps_count:
  "inflight w = (if isLoading (page w) then 1 else 0) \<Longrightarrow>
   inflight (run w es) = (if isLoading (page (run w es)) then 1 else 0)"
proof (induction es arbitrary: w)
  case Nil
  then show ?case by simp
next
  case (Cons e es)
  from step_keeps_count[OF Cons.prems] show ?case
    by (simp add: Cons.IH)
qed

lemma body_of_call:
  "trim t \<noteq> [] \<Longrightarrow>
   map_option body (snd (handleSend_call (p\<lparr>input := t\<rparr>))) =
     Some (JSON_stringify [(lit ''message'', Json (JStr t)), (lit ''thread_id'', threadIdRef p)])"
  by (simp add: handleSend_call_valid)

lemma try_block_object:
  assumes "ok r" "json_body r = Parsed (JObj fs)"
    and "map_of fs (lit ''response'') = Some v" "truthy_json v"
  shows "try_block (Resolved r) =
           Inr (v, case map_of fs (lit ''thread_id'') of None \<Rightarrow> Undefined | Some t \<Rightarrow> Json t)"
  using assms by (simp add: try_block_def split: option.splits)

lemma hello_reply_try:
  "try_block hello_reply = Inr (JStr (lit ''Hi there!''), Json (JStr (lit ''t1'')))"
  by (simp add: hello_reply_def try_block_def ok_def lit_def)

section \<open>The transcript of successful round trips\<close>

text \<open>
  C1. After any sequence of N valid submissions (non-blank text, sent by a click or by
  Enter), each answered by a successful response before the next one, the message list
  of the page has length 2N and its senders alternate: user, ai, user, ai, ...
\<close>

theorem alternating_transcript:
  assumes "\<forall>r \<in> set rounds. trim (fst r) \<noteq> [] \<and> successful (snd (snd r))"
  shows "length (messages (page (run initial_world (concat (map round_trip rounds)))))
           = 2 * length rounds
       \<and> map msg_sender (messages (page (run initial_world (concat (map round_trip rounds)))))
           = concat (replicate (length rounds) [User, AI])"
proof -
  let ?ms = "messages (page (run initial_world (concat (map round_trip rounds))))"
  have s: "map msg_sender ?ms = concat (replicate (length rounds) [User, AI])"
    using rounds_senders[of initial_world rounds] assms
    by (simp add: initial_world_def initial_page_def)
  have "length (concat (replicate n [User, AI])) = 2 * n" for n
    by (induction n) simp_all
  then have "length (map msg_sender ?ms) = 2 * length rounds"
    unfolding s .
  then have "length ?ms = 2 * length rounds"
    by (simp only: length_map)
  then show ?thesis using s by simp
qed

theorem alternating_transcript_witness:
  "trim (lit ''Hello'') \<noteq> [] \<and> trim (lit '' again '') \<noteq> [] \<and> successful hello_reply
   \<and> length (messages (page (run initial_world (concat (map round_trip
        [(lit ''Hello'', Click, hello_reply), (lit '' again '', PressEnter, hello_reply)]))))) = 4
   \<and> map msg_sender (messages (page (run initial_world (concat (map round_trip
        [(lit ''Hello'', Click, hello_reply), (lit '' again '', PressEnter, hello_reply)]))))) =
       [User, AI, User, AI]"
proof -
  let ?R = "[(lit ''Hello'', Click, hello_reply), (lit '' again '', PressEnter, hello_reply)]"
  have t: "trim (lit ''Hello'') \<noteq> []" "trim (lit '' again '') \<noteq> []"
    by (simp_all add: trim_def lit_def isWhiteSpace_def)
  have u: "successful hello_reply"
    by (simp add: successful_iff hello_reply_try)
  have h: "\<forall>r \<in> set ?R. trim (fst r) \<noteq> [] \<and> successful (snd (snd r))"
    using t u by simp
  have l: "2 * length ?R = 4"
    by simp
  have c: "concat (replicate (length ?R) [User, AI]) = [User, AI, User, AI]"
    by (simp add: numeral_2_eq_2)
  from t u alternating_transcript[OF h, unfolded l c] show ?thesis
    by blast
qed

section \<open>Suppressed submissions\<close>

text \<open>
  C2. When the trimmed input text is empty, a submission attempt (the form's submit event
  or any key press, Enter included) leaves the whole page unchanged: the message list is
  the same, the pending flag is not set, and no request is issued. \<open>handleSend\<close>
  itself returns at its guard.
\<close>

theorem blank_input_not_submitted:
  "trim (input (page w)) = [] \<Longrightarrow>
   step w Submit = w \<and> step w (KeyDown e) = w \<and>
   handleSend_call (page w) = (page w, None) \<and> onSend w = w"
  by (simp add: submit_form_eq step_KeyDown onSend_def handleSend_call_empty
      del: step.simps(2))

theorem blank_input_not_submitted_witness:
  "trim (input (page (step initial_world (Change (lit ''   ''))))) = []
   \<and> step (step initial_world (Change (lit ''   ''))) Submit
       = step initial_world (Change (lit ''   ''))
   \<and> step (step initial_world (Change (lit ''   '')))
          (KeyDown \<lparr>key = lit ''Enter'', shiftKey = False\<rparr>)
       = step initial_world (Change (lit ''   ''))
   \<and> sent (step (step initial_world (Change (lit ''   ''))) Submit) = []
   \<and> \<not> isLoading (page (step (step initial_world (Change (lit ''   ''))) Submit))"
proof -
  have h: "trim (input (page (step initial_world (Change (lit ''   ''))))) = []"
    by (simp add: trim_def lit_def isWhiteSpace_def)
  have i: "sent (step initial_world (Change (lit ''   ''))) = []"
    "\<not> isLoading (page (step initial_world (Change (lit ''   ''))))"
    by (simp_all add: initial_world_def initial_page_def)
  from blank_input_not_submitted[OF h, of "\<lparr>key = lit ''Enter'', shiftKey = False\<rparr>"] h i
  show ?thesis by metis
qed

text \<open>
  C3. While the pending flag is true, a submission attempt through the input control
  (submit event or key press) changes nothing: message list, thread identifier and the
  log of requests stay as they are. In every state the page can reach, at most one
  request is outstanding, and the flag is true exactly when one is.
\<close>

theorem pending_blocks_submission:
  "(isLoading (page w) \<longrightarrow> step w Submit = w \<and> step w (KeyDown e) = w)
   \<and> inflight (run initial_world evs) \<le> 1
   \<and> (isLoading (page (run initial_world evs)) \<longleftrightarrow> inflight (run initial_world evs) = 1)"
proof -
  have "inflight (run initial_world evs)
          = (if isLoading (page (run initial_world evs)) then 1 else 0)"
    by (rule run_keeps_count) (simp add: initial_world_def initial_page_def)
  then show ?thesis
    by (auto simp: submit_form_eq step_KeyDown simp del: step.simps(2) split: if_splits)
qed

theorem pending_blocks_submission_witness:
  "isLoading (page waiting_world) \<and> trim (input (page waiting_world)) \<noteq> []
   \<and> step waiting_world Submit = waiting_world
   \<and> step waiting_world (KeyDown \<lparr>key = lit ''Enter'', shiftKey = False\<rparr>) = waiting_world
   \<and> inflight (run initial_world [Change (lit ''Hello''), Submit, Change (lit ''more''), Submit]) \<le> 1"
proof -
  have h: "isLoading (page waiting_world)" "trim (input (page waiting_world)) \<noteq> []"
    by (simp_all add: waiting_world_def waiting_page_def trim_def lit_def isWhiteSpace_def)
  from pending_blocks_submission[of waiting_world "\<lparr>key = lit ''Enter'', shiftKey = False\<rparr>"
      "[Change (lit ''Hello''), Submit, Change (lit ''more''), Submit]"] h
  show ?thesis by blast
qed

section \<open>Settling a request\<close>

text \<open>
  C4. Every failed round trip, that is every settled request that does not take the
  success branch, appends exactly one assistant message with the fixed apology text and
  sets the pending flag to false; nothing else changes. The failed round trips are: the
  fetch rejects, the status is not 2xx, the 2xx body is not JSON, the body is \<open>null\<close>,
  the body has no \<open>response\<close> field, or that field is falsy.
\<close>

theorem failure_appends_fallback:
  "(\<not> successful outcome \<longrightarrow>
      handleSend_settle outcome p =
        p\<lparr>messages := messages p @
             [\<lparr>msg_text = JStr (lit ''Sorry, I couldn't connect to the server. Please try again later.''),
               msg_sender = AI\<rparr>],
          isLoading := False\<rparr>)
   \<and> (\<not> successful outcome \<longleftrightarrow>
        outcome = Rejected
      \<or> (\<exists>r. outcome = Resolved r \<and>
             (\<not> ok r
            \<or> json_body r = Unparsable
            \<or> json_body r = Parsed JNull
            \<or> (\<exists>d. json_body r = Parsed d \<and> get_property d (lit ''response'') = Inr Undefined)
            \<or> (\<exists>d v. json_body r = Parsed d \<and>
                       get_property d (lit ''response'') = Inr (Json v) \<and> \<not> truthy_json v))))"
proof -
  have a: "handleSend_settle outcome p =
        p\<lparr>messages := messages p @
             [\<lparr>msg_text = JStr (lit ''Sorry, I couldn't connect to the server. Please try again later.''),
               msg_sender = AI\<rparr>],
          isLoading := False\<rparr>"
    if "\<not> successful outcome"
  proof -
    from that obtain e where "try_block outcome = Inl e"
      by (auto simp: successful_def split: sum.splits)
    then show ?thesis
      by (simp add: settle_failure fallback_text_def)
  qed
  have b: "\<not> successful outcome \<longleftrightarrow>
        outcome = Rejected
      \<or> (\<exists>r. outcome = Resolved r \<and>
             (\<not> ok r
            \<or> json_body r = Unparsable
            \<or> json_body r = Parsed JNull
            \<or> (\<exists>d. json_body r = Parsed d \<and> get_property d (lit ''response'') = Inr Undefined)
            \<or> (\<exists>d v. json_body r = Parsed d \<and>
                       get_property d (lit ''response'') = Inr (Json v) \<and> \<not> truthy_json v)))"
  proof (cases outcome)
    case Rejected
    then show ?thesis by (simp add: successful_def try_block_def)
  next
    case (Resolved r)
    show ?thesis
    proof (cases "ok r")
      case False
      with Resolved show ?thesis by (simp add: successful_def try_block_def)
    next
      case True
      show ?thesis
      proof (cases "json_body r")
        case Unparsable
        with Resolved True show ?thesis by (simp add: successful_def try_block_def)
      next
        case (Parsed d)
        show ?thesis
        proof (cases "get_property d (lit ''response'')")
          case (Inl x)
          then have "d = JNull" by (cases d) (simp_all split: option.splits)
          with Resolved True Parsed Inl show ?thesis
            by (simp add: successful_def try_block_def)
        next
          case (Inr y)
          then have obj: "d \<noteq> JNull" by (cases d) simp_all
          then have tid: "\<exists>t. get_property d (lit ''thread_id'') = Inr t"
            by (cases d) (simp_all split: option.splits)
          show ?thesis
          proof (cases y)
            case Undefined
            with Resolved True Parsed Inr show ?thesis
              by (simp add: successful_def try_block_def)
          next
            case (Json v)
            with Resolved True Parsed Inr obj tid show ?thesis
              by (auto simp: successful_def try_block_def split: sum.splits)
          qed
        qed
      qed
    qed
  qed
  from a b show ?thesis by blast
qed

theorem failure_appends_fallback_witness:
  "\<not> successful server_error
   \<and> handleSend_settle server_error waiting_page =
       waiting_page\<lparr>messages :=
          [\<lparr>msg_text = JStr (lit ''Hello''), msg_sender = User\<rparr>,
           \<lparr>msg_text = JStr (lit ''Sorry, I couldn't connect to the server. Please try again later.''),
             msg_sender = AI\<rparr>],
          isLoading := False\<rparr>
   \<and> \<not> successful Rejected
   \<and> messages (handleSend_settle Rejected waiting_page) =
          [\<lparr>msg_text = JStr (lit ''Hello''), msg_sender = User\<rparr>,
           \<lparr>msg_text = JStr (lit ''Sorry, I couldn't connect to the server. Please try again later.''),
             msg_sender = AI\<rparr>]
   \<and> \<not> successful (Resolved \<lparr>status = 200, statusText = lit ''OK'', json_body = Unparsable\<rparr>)
   \<and> messages (handleSend_settle
          (Resolved \<lparr>status = 200, statusText = lit ''OK'', json_body = Unparsable\<rparr>) waiting_page) =
          [\<lparr>msg_text = JStr (lit ''Hello''), msg_sender = User\<rparr>,
           \<lparr>msg_text = JStr (lit ''Sorry, I couldn't connect to the server. Please try again later.''),
             msg_sender = AI\<rparr>]
   \<and> \<not> successful (Resolved \<lparr>status = 200, statusText = lit ''OK'', json_body = Parsed JNull\<rparr>)
   \<and> messages (handleSend_settle
          (Resolved \<lparr>status = 200, statusText = lit ''OK'', json_body = Parsed JNull\<rparr>) waiting_page) =
          [\<lparr>msg_text = JStr (lit ''Hello''), msg_sender = User\<rparr>,
           \<lparr>msg_text = JStr (lit ''Sorry, I couldn't connect to the server. Please try again later.''),
             msg_sender = AI\<rparr>]
   \<and> \<not> successful (Resolved \<lparr>status = 200, statusText = lit ''OK'',
                              json_body = Parsed (JObj [(lit ''thread_id'', JStr (lit ''t1''))])\<rparr>)
   \<and> messages (handleSend_settle
          (Resolved \<lparr>status = 200, statusText = lit ''OK'',
                     json_body = Parsed (JObj [(lit ''thread_id'', JStr (lit ''t1''))])\<rparr>) waiting_page) =
          [\<lparr>msg_text = JStr (lit ''Hello''), msg_sender = User\<rparr>,
           \<lparr>msg_text = JStr (lit ''Sorry, I couldn't connect to the server. Please try again later.''),
             msg_sender = AI\<rparr>]"
proof -
  let ?np = "Resolved \<lparr>status = 200, statusText = lit ''OK'', json_body = Unparsable\<rparr>"
  let ?nl = "Resolved \<lparr>status = 200, statusText = lit ''OK'', json_body = Parsed JNull\<rparr>"
  let ?nr = "Resolved \<lparr>status = 200, statusText = lit ''OK'',
                       json_body = Parsed (JObj [(lit ''thread_id'', JStr (lit ''t1''))])\<rparr>"
  have h: "\<not> successful server_error" "\<not> successful Rejected"
    "\<not> successful ?np" "\<not> successful ?nl" "\<not> successful ?nr"
    by (simp_all add: successful_def try_block_def server_error_def ok_def lit_def)
  have m: "messages waiting_page = [\<lparr>msg_text = JStr (lit ''Hello''), msg_sender = User\<rparr>]"
    by (simp add: waiting_page_def)
  from failure_appends_fallback[of server_error waiting_page]
       failure_appends_fallback[of Rejected waiting_page]
       failure_appends_fallback[of ?np waiting_page]
       failure_appends_fallback[of ?nl waiting_page]
       failure_appends_fallback[of ?nr waiting_page] h
  show ?thesis
    by (simp add: m)
qed

text \<open>
  C6 (amended). A 2xx response whose body is an object with a \<open>response\<close> field that
  is a non-empty string takes the success branch: an assistant message with exactly that
  string is appended, the thread identifier becomes \<open>data.thread_id\<close> and the pending
  flag is cleared. A 2xx response with an object body succeeds exactly when its
  \<open>response\<close> field is present and truthy; an absent field and a falsy one (the empty
  string, \<open>null\<close>, \<open>false\<close>, 0) both fail.
\<close>

theorem truthy_response_succeeds:
  assumes "ok r" "json_body r = Parsed (JObj fs)"
  shows "(map_of fs (lit ''response'') = Some (JStr s) \<and> s \<noteq> [] \<longrightarrow>
            handleSend_settle (Resolved r) p =
              p\<lparr>messages := messages p @ [\<lparr>msg_text = JStr s, msg_sender = AI\<rparr>],
                threadIdRef := (case map_of fs (lit ''thread_id'') of
                                  None \<Rightarrow> Undefined | Some t \<Rightarrow> Json t),
                isLoading := False\<rparr>)
       \<and> (successful (Resolved r) \<longleftrightarrow>
            (\<exists>v. map_of fs (lit ''response'') = Some v \<and> truthy_json v))"
proof -
  have a: "handleSend_settle (Resolved r) p =
              p\<lparr>messages := messages p @ [\<lparr>msg_text = JStr s, msg_sender = AI\<rparr>],
                threadIdRef := (case map_of fs (lit ''thread_id'') of
                                  None \<Rightarrow> Undefined | Some t \<Rightarrow> Json t),
                isLoading := False\<rparr>"
    if "map_of fs (lit ''response'') = Some (JStr s)" "s \<noteq> []"
    using try_block_object[OF assms that(1)] that(2) by (simp add: settle_success)
  have b: "successful (Resolved r) \<longleftrightarrow>
            (\<exists>v. map_of fs (lit ''response'') = Some v \<and> truthy_json v)"
    using assms
    by (auto simp: successful_iff try_block_success_iff get_property_Json split: option.splits)
  from a b show ?thesis by blast
qed

theorem truthy_response_succeeds_witness:
  "ok \<lparr>status = 200, statusText = lit ''OK'',
       json_body = Parsed (JObj [(lit ''response'', JStr (lit ''Hi there!'')),
                                 (lit ''thread_id'', JStr (lit ''t1''))])\<rparr>
   \<and> handleSend_settle hello_reply waiting_page =
       waiting_page\<lparr>messages := messages waiting_page @
                        [\<lparr>msg_text = JStr (lit ''Hi there!''), msg_sender = AI\<rparr>],
                    threadIdRef := Json (JStr (lit ''t1'')), isLoading := False\<rparr>
   \<and> successful hello_reply"
proof -
  let ?fs = "[(lit ''response'', JStr (lit ''Hi there!'')), (lit ''thread_id'', JStr (lit ''t1''))]"
  let ?r = "\<lparr>status = 200, statusText = lit ''OK'', json_body = Parsed (JObj ?fs)\<rparr>"
  have h: "ok ?r" "json_body ?r = Parsed (JObj ?fs)"
    by (simp_all add: ok_def)
  have m: "map_of ?fs (lit ''response'') = Some (JStr (lit ''Hi there!''))"
    "lit ''Hi there!'' \<noteq> []" "truthy_json (JStr (lit ''Hi there!''))"
    "(case map_of ?fs (lit ''thread_id'') of None \<Rightarrow> Undefined | Some t \<Rightarrow> Json t)
       = Json (JStr (lit ''t1''))"
    by (simp_all add: lit_def)
  from truthy_response_succeeds[OF h, of "lit ''Hi there!''" waiting_page] m h(1)
  show ?thesis
    unfolding hello_reply_def by metis
qed

text \<open>
  C6 as stated fails: the 2xx body \<open>{response: "", thread_id: "t1"}\<close> has the
  \<open>response\<close> field as a string, yet \<open>if (data.response)\<close> is false on the empty
  string, so the apology is appended and the thread identifier stays \<open>null\<close>.
\<close>

theorem empty_response_counterexample:
  "ok \<lparr>status = 200, statusText = lit ''OK'',
       json_body = Parsed (JObj [(lit ''response'', JStr []), (lit ''thread_id'', JStr (lit ''t1''))])\<rparr>
   \<and> map_of [(lit ''response'', JStr []), (lit ''thread_id'', JStr (lit ''t1''))] (lit ''response'')
       = Some (JStr [])
   \<and> handleSend_settle
        (Resolved \<lparr>status = 200, statusText = lit ''OK'',
           json_body = Parsed (JObj [(lit ''response'', JStr []),
                                     (lit ''thread_id'', JStr (lit ''t1''))])\<rparr>)
        waiting_page
       = waiting_page\<lparr>messages := messages waiting_page @
            [\<lparr>msg_text = JStr fallback_text, msg_sender = AI\<rparr>], isLoading := False\<rparr>
   \<and> threadIdRef (handleSend_settle
        (Resolved \<lparr>status = 200, statusText = lit ''OK'',
           json_body = Parsed (JObj [(lit ''response'', JStr []),
                                     (lit ''thread_id'', JStr (lit ''t1''))])\<rparr>)
        waiting_page) = Json JNull"
  by (simp add: handleSend_settle_def try_block_def ok_def waiting_page_def)

section \<open>The thread identifier\<close>

text \<open>
  C5. After a successful response whose body has \<open>thread_id\<close> equal to a string (such
  as \<open>"abc123"\<close>), the stored thread identifier is that string and the body of the next
  request is \<open>{message: t, thread_id: "abc123"}\<close>; the first request of a session has
  \<open>thread_id: null\<close>.
\<close>

theorem thread_id_echoed:
  assumes "ok r" "json_body r = Parsed (JObj fs)"
    and "map_of fs (lit ''response'') = Some v" "truthy_json v"
    and "map_of fs (lit ''thread_id'') = Some (JStr tid)"
    and "trim t \<noteq> []"
  shows "threadIdRef (handleSend_settle (Resolved r) p) = Json (JStr tid)
       \<and> map_option body (snd (handleSend_call ((handleSend_settle (Resolved r) p)\<lparr>input := t\<rparr>)))
           = Some [(lit ''message'', JStr t), (lit ''thread_id'', JStr tid)]
       \<and> map_option body (snd (handleSend_call (initial_page\<lparr>input := t\<rparr>)))
           = Some [(lit ''message'', JStr t), (lit ''thread_id'', JNull)]"
proof -
  have tb: "try_block (Resolved r) = Inr (v, Json (JStr tid))"
    using try_block_object[OF assms(1-4)] assms(5) by simp
  have 1: "threadIdRef (handleSend_settle (Resolved r) p) = Json (JStr tid)"
    by (simp add: settle_success[OF tb])
  have 2: "threadIdRef initial_page = Json JNull"
    by (simp add: initial_page_def)
  show ?thesis
    by (simp add: body_of_call[OF assms(6)] 1 2)
qed

theorem thread_id_echoed_witness:
  "threadIdRef (handleSend_settle abc_reply waiting_page) = Json (JStr (lit ''abc123''))
   \<and> map_option body (snd (handleSend_call ((handleSend_settle abc_reply waiting_page)\<lparr>input := lit ''next''\<rparr>)))
       = Some [(lit ''message'', JStr (lit ''next'')), (lit ''thread_id'', JStr (lit ''abc123''))]
   \<and> map_option body (snd (handleSend_call (initial_page\<lparr>input := lit ''next''\<rparr>)))
       = Some [(lit ''message'', JStr (lit ''next'')), (lit ''thread_id'', JNull)]"
proof -
  let ?r = "\<lparr>status = 200, statusText = lit ''OK'',
     json_body = Parsed (JObj [(lit ''response'', JStr (lit ''Hi there!'')),
                               (lit ''thread_id'', JStr (lit ''abc123''))])\<rparr>"
  let ?fs = "[(lit ''response'', JStr (lit ''Hi there!'')), (lit ''thread_id'', JStr (lit ''abc123''))]"
  have h: "ok ?r" "json_body ?r = Parsed (JObj ?fs)"
    "map_of ?fs (lit ''response'') = Some (JStr (lit ''Hi there!''))"
    "truthy_json (JStr (lit ''Hi there!''))"
    "map_of ?fs (lit ''thread_id'') = Some (JStr (lit ''abc123''))"
    "trim (lit ''next'') \<noteq> []"
    by (simp_all add: ok_def lit_def trim_def isWhiteSpace_def)
  from thread_id_echoed[OF h, of waiting_page] show ?thesis
    by (simp only: abc_reply_def)
qed

text \<open>
  C7. A step of the page changes the thread identifier only if it settles a request
  successfully. A failed round trip (the fetch rejects, the status is not 2xx, or the 2xx
  body has no \<open>response\<close> field) leaves it as it was.
\<close>

theorem thread_id_changes_only_on_success:
  "(threadIdRef (page (step w e)) \<noteq> threadIdRef (page w) \<longrightarrow>
      (\<exists>outcome. e = Settle outcome \<and> successful outcome))
   \<and> (outcome = Rejected
       \<or> (\<exists>r. outcome = Resolved r \<and> \<not> ok r)
       \<or> (\<exists>r d. outcome = Resolved r \<and> ok r \<and> json_body r = Parsed d \<and>
                 get_property d (lit ''response'') = Inr Undefined)
      \<longrightarrow> threadIdRef (handleSend_settle outcome p) = threadIdRef p)"
proof -
  have a: "\<exists>outcome. e = Settle outcome \<and> successful outcome"
    if "threadIdRef (page (step w e)) \<noteq> threadIdRef (page w)"
  proof (cases e)
    case (Change v)
    with that show ?thesis by simp
  next
    case (KeyDown k)
    with that show ?thesis
      by (auto simp: step_KeyDown onSend_def handleSend_call_def Let_def
          simp del: step.simps(2) split: if_splits)
  next
    case Submit
    with that show ?thesis
      by (auto simp: submit_form_eq onSend_def handleSend_call_def Let_def split: if_splits)
  next
    case (Settle outcome)
    with that show ?thesis
      by (cases "try_block outcome")
         (auto simp: handleSend_settle_def successful_def split: if_splits)
  qed
  have b: "threadIdRef (handleSend_settle outcome p) = threadIdRef p"
    if "outcome = Rejected
       \<or> (\<exists>r. outcome = Resolved r \<and> \<not> ok r)
       \<or> (\<exists>r d. outcome = Resolved r \<and> ok r \<and> json_body r = Parsed d \<and>
                 get_property d (lit ''response'') = Inr Undefined)"
  proof -
    from that obtain x where "try_block outcome = Inl x"
      using try_block_failures by blast
    then show ?thesis by (simp add: settle_failure)
  qed
  from a b show ?thesis by blast
qed

theorem thread_id_changes_only_on_success_witness:
  "threadIdRef (handleSend_settle Rejected (waiting_page\<lparr>threadIdRef := Json (JStr (lit ''t1''))\<rparr>))
     = Json (JStr (lit ''t1''))
   \<and> threadIdRef (page (step waiting_world (Settle hello_reply))) \<noteq> threadIdRef (page waiting_world)
   \<and> successful hello_reply"
proof -
  have h: "threadIdRef (page (step waiting_world (Settle hello_reply)))
             \<noteq> threadIdRef (page waiting_world)"
    by (simp add: waiting_world_def waiting_page_def settle_success[OF hello_reply_try])
  from thread_id_changes_only_on_success[of waiting_world "Settle hello_reply" Rejected
      "waiting_page\<lparr>threadIdRef := Json (JStr (lit ''t1''))\<rparr>"] h
  show ?thesis by auto
qed

section \<open>Key presses and the text that is sent\<close>

text \<open>
  C8. The claim is that a key press submits exactly when the key is Enter without shift
  (nothing pending, text not blank), and that shift+Enter never submits.
  \<open>handleKeyDown\<close> tests \<open>!event.shiftKey\<close> to that end, but the page does not keep
  it. On the idle page with the text \<open>"Hello"\<close>, \<open>handleKeyDown\<close> answers shift+Enter
  with neither \<open>preventDefault()\<close> nor \<open>onSend()\<close>; the key press then submits the form,
  \<open>handleSubmit\<close> calls \<open>onSend\<close>, and the page ends where plain Enter takes it: the
  user message appended, the pending flag set, the request issued.
\<close>

theorem shift_enter_submits:
  "handleKeyDown (lit ''Hello'') False \<lparr>key = lit ''Enter'', shiftKey = True\<rparr>
     = \<lparr>defaultPrevented = False, onSendCalled = False\<rparr>
   \<and> step (step initial_world (Change (lit ''Hello'')))
          (KeyDown \<lparr>key = lit ''Enter'', shiftKey = True\<rparr>)
     = \<lparr>page = \<lparr>messages = [\<lparr>msg_text = JStr (lit ''Hello''), msg_sender = User\<rparr>],
                input = [], isLoading = True, threadIdRef = Json JNull\<rparr>,
        sent = [\<lparr>url = lit ''http://localhost:8080/chat'', http_method = lit ''POST'',
                 headers = [(lit ''Content-Type'', lit ''application/json'')],
                 body = [(lit ''message'', JStr (lit ''Hello'')), (lit ''thread_id'', JNull)]\<rparr>],
        inflight = 1\<rparr>
   \<and> step (step initial_world (Change (lit ''Hello'')))
          (KeyDown \<lparr>key = lit ''Enter'', shiftKey = True\<rparr>)
     = step (step initial_world (Change (lit ''Hello'')))
          (KeyDown \<lparr>key = lit ''Enter'', shiftKey = False\<rparr>)"
proof -
  let ?w = "step initial_world (Change (lit ''Hello''))"
  have t: "trim (lit ''Hello'') \<noteq> []"
    by (simp add: trim_def lit_def isWhiteSpace_def)
  have w: "?w = \<lparr>page = \<lparr>messages = [], input = lit ''Hello'', isLoading = False,
                        threadIdRef = Json JNull\<rparr>, sent = [], inflight = 0\<rparr>"
    by (simp add: initial_world_def initial_page_def)
  have k: "handleKeyDown (lit ''Hello'') False \<lparr>key = lit ''Enter'', shiftKey = True\<rparr>
     = \<lparr>defaultPrevented = False, onSendCalled = False\<rparr>"
    by (simp add: handleKeyDown_def)
  have s: "onSend ?w = \<lparr>page = \<lparr>messages = [\<lparr>msg_text = JStr (lit ''Hello''), msg_sender = User\<rparr>],
                input = [], isLoading = True, threadIdRef = Json JNull\<rparr>,
        sent = [\<lparr>url = lit ''http://localhost:8080/chat'', http_method = lit ''POST'',
                 headers = [(lit ''Content-Type'', lit ''application/json'')],
                 body = [(lit ''message'', JStr (lit ''Hello'')), (lit ''thread_id'', JNull)]\<rparr>],
        inflight = 1\<rparr>"
    unfolding w using t by (simp add: onSend_def handleSend_call_def Let_def)
  have 1: "step ?w (KeyDown \<lparr>key = lit ''Enter'', shiftKey = True\<rparr>) = onSend ?w"
    unfolding w using t
    by (simp add: handleKeyDown_def default_action_def submitDisabled_def submit_form_def
        handleSubmit_def Let_def)
  have 2: "step ?w (KeyDown \<lparr>key = lit ''Enter'', shiftKey = False\<rparr>) = onSend ?w"
    unfolding w using t
    by (simp add: handleKeyDown_def Let_def)
  show ?thesis
    unfolding 1 2 s using k by simp
qed

text \<open>
  C9. On a valid submission the appended user message and the \<open>message\<close> member of the
  request body are the input text exactly as typed, surrounding white space included;
  \<open>trim\<close> only guards the submission.
\<close>

theorem raw_text_sent:
  assumes "trim (input p) \<noteq> []"
  shows "messages (fst (handleSend_call p)) =
           messages p @ [\<lparr>msg_text = JStr (input p), msg_sender = User\<rparr>]
       \<and> map_option (\<lambda>rq. map_of (body rq) (lit ''message'')) (snd (handleSend_call p))
           = Some (Some (JStr (input p)))"
  using assms by (simp add: handleSend_call_valid)

theorem raw_text_sent_witness:
  "trim (input (initial_page\<lparr>input := lit '' again ''\<rparr>)) = lit ''again''
   \<and> messages (fst (handleSend_call (initial_page\<lparr>input := lit '' again ''\<rparr>))) =
       [\<lparr>msg_text = JStr (lit '' again ''), msg_sender = User\<rparr>]
   \<and> map_option (\<lambda>rq. map_of (body rq) (lit ''message''))
        (snd (handleSend_call (initial_page\<lparr>input := lit '' again ''\<rparr>)))
       = Some (Some (JStr (lit '' again '')))"
proof -
  have t: "trim (input (initial_page\<lparr>input := lit '' again ''\<rparr>)) = lit ''again''"
    by (simp add: trim_def lit_def isWhiteSpace_def)
  then have h: "trim (input (initial_page\<lparr>input := lit '' again ''\<rparr>)) \<noteq> []"
    by (simp add: lit_def)
  from raw_text_sent[OF h] t show ?thesis
    by (simp add: initial_page_def)
qed

text \<open>
  C10 (amended). On every success transition the stored thread identifier is replaced by
  \<open>data.thread_id\<close>, whatever it is. If the body has no \<open>thread_id\<close>, the stored
  identifier becomes \<open>undefined\<close>, and the body of the next request then has no
  \<open>thread_id\<close> member at all, since \<open>JSON.stringify\<close> leaves out a property whose
  value is \<open>undefined\<close>.
\<close>

theorem thread_id_replaced_unchecked:
  assumes "ok r" "json_body r = Parsed (JObj fs)"
    and "map_of fs (lit ''response'') = Some v" "truthy_json v"
  shows "threadIdRef (handleSend_settle (Resolved r) p) =
           (case map_of fs (lit ''thread_id'') of None \<Rightarrow> Undefined | Some t \<Rightarrow> Json t)
       \<and> (map_of fs (lit ''thread_id'') = None \<and> trim t \<noteq> [] \<longrightarrow>
            threadIdRef (handleSend_settle (Resolved r) p) = Undefined
          \<and> map_option body
              (snd (handleSend_call ((handleSend_settle (Resolved r) p)\<lparr>input := t\<rparr>)))
              = Some [(lit ''message'', JStr t)])"
proof -
  have 1: "threadIdRef (handleSend_settle (Resolved r) p) =
           (case map_of fs (lit ''thread_id'') of None \<Rightarrow> Undefined | Some t \<Rightarrow> Json t)"
    by (simp add: settle_success[OF try_block_object[OF assms]])
  show ?thesis
    by (simp add: 1 body_of_call)
qed

theorem thread_id_replaced_unchecked_witness:
  "threadIdRef (handleSend_settle
      (Resolved \<lparr>status = 200, statusText = lit ''OK'',
         json_body = Parsed (JObj [(lit ''response'', JStr (lit ''Hi there!'')),
                                   (lit ''thread_id'', JNum 7)])\<rparr>)
      waiting_page) = Json (JNum 7)
   \<and> map_of [(lit ''response'', JStr (lit ''Hi there!''))] (lit ''thread_id'') = None
   \<and> trim (lit ''next'') \<noteq> []
   \<and> threadIdRef (handleSend_settle
        (Resolved \<lparr>status = 200, statusText = lit ''OK'',
           json_body = Parsed (JObj [(lit ''response'', JStr (lit ''Hi there!''))])\<rparr>)
        waiting_page) = Undefined"
proof -
  let ?fs = "[(lit ''response'', JStr (lit ''Hi there!'')), (lit ''thread_id'', JNum 7)]"
  let ?r = "\<lparr>status = 200, statusText = lit ''OK'', json_body = Parsed (JObj ?fs)\<rparr>"
  let ?gs = "[(lit ''response'', JStr (lit ''Hi there!''))]"
  let ?q = "\<lparr>status = 200, statusText = lit ''OK'', json_body = Parsed (JObj ?gs)\<rparr>"
  have h: "ok ?r" "json_body ?r = Parsed (JObj ?fs)"
    "map_of ?fs (lit ''response'') = Some (JStr (lit ''Hi there!''))"
    "truthy_json (JStr (lit ''Hi there!''))"
    by (simp_all add: ok_def lit_def)
  have k: "ok ?q" "json_body ?q = Parsed (JObj ?gs)"
    "map_of ?gs (lit ''response'') = Some (JStr (lit ''Hi there!''))"
    by (simp_all add: ok_def lit_def)
  have n: "map_of ?gs (lit ''thread_id'') = None" "trim (lit ''next'') \<noteq> []"
    "(case map_of ?fs (lit ''thread_id'') of None \<Rightarrow> Undefined | Some t \<Rightarrow> Json t)
       = Json (JNum 7)"
    by (simp_all add: lit_def trim_def isWhiteSpace_def)
  from thread_id_replaced_unchecked[OF h, of waiting_page "lit ''next''"]
       thread_id_replaced_unchecked[OF k h(4), of waiting_page "lit ''next''"] n
  show ?thesis by metis
qed

text \<open>
  C10 as stated fails: after the 2xx body \<open>{response: "Hi there!"}\<close> the stored
  identifier is \<open>undefined\<close>, and the body of the next request is
  \<open>{message: "next"}\<close>: it carries no \<open>thread_id\<close>.
\<close>

theorem undefined_thread_id_counterexample:
  "threadIdRef (handleSend_settle
      (Resolved \<lparr>status = 200, statusText = lit ''OK'',
         json_body = Parsed (JObj [(lit ''response'', JStr (lit ''Hi there!''))])\<rparr>)
      waiting_page) = Undefined
   \<and> map_option body (snd (handleSend_call
        ((handleSend_settle
            (Resolved \<lparr>status = 200, statusText = lit ''OK'',
               json_body = Parsed (JObj [(lit ''response'', JStr (lit ''Hi there!''))])\<rparr>)
            waiting_page)\<lparr>input := lit ''next''\<rparr>)))
       = Some [(lit ''message'', JStr (lit ''next''))]
   \<and> map_option (\<lambda>rq. map_of (body rq) (lit ''thread_id'')) (snd (handleSend_call
        ((handleSend_settle
            (Resolved \<lparr>status = 200, statusText = lit ''OK'',
               json_body = Parsed (JObj [(lit ''response'', JStr (lit ''Hi there!''))])\<rparr>)
            waiting_page)\<lparr>input := lit ''next''\<rparr>)))
       = Some None"
proof -
  have t: "trim (lit ''next'') \<noteq> []"
    by (simp add: trim_def lit_def isWhiteSpace_def)
  have s: "handleSend_settle
      (Resolved \<lparr>status = 200, statusText = lit ''OK'',
         json_body = Parsed (JObj [(lit ''response'', JStr (lit ''Hi there!''))])\<rparr>)
      waiting_page
     = waiting_page\<lparr>messages := messages waiting_page @
          [\<lparr>msg_text = JStr (lit ''Hi there!''), msg_sender = AI\<rparr>],
        threadIdRef := Undefined, isLoading := False\<rparr>"
    by (simp add: handleSend_settle_def try_block_def ok_def lit_def)
  show ?thesis
    unfolding s using t
    by (simp add: handleSend_call_def Let_def) (simp add: lit_def)
qed

end
